theory Spec2Isabelle
  imports Complex_Main "HOL-Library.Multiset"
begin

section \<open>Data model\<close>

text \<open>
  Modelled from the spec: module \<open>direction\<close> (class \<open>Direction\<close>) is imported by
  \<open>tiles/tile.py\<close> but is not among the sources. The spec calls its members the "named
  numeric constants for the four cardinal movement deltas", gives the unit thresholds as
  \<open>\<plusminus>1\<close>, has the heading \<open>(1, 0)\<close> cross "the right threshold" at 1, and calls the
  left-pointing component negative. The vertical axis of a screen grows downwards
  (\<open>_move_up\<close> subtracts from \<open>y\<close>), so up is the negative unit.
\<close>

definition Direction_up :: int where
  "Direction_up = -1"

definition Direction_down :: int where
  "Direction_down = 1"

definition Direction_left :: int where
  "Direction_left = -1"

definition Direction_right :: int where
  "Direction_right = 1"

text \<open>
  \<open>pygame.math.Vector2\<close>: a pair of floats \<open>(x, y)\<close>. Floats are idealised as reals: the
  sum of two floats is taken to be their exact sum, where Python rounds it to the nearest
  double. The two agree on every sum a statement below depends on: sums of 0, 1/2 and 1
  and their negatives, and \<open>x + 0\<close>. Where a statement speaks of an arbitrary state, it
  speaks of the accumulator as the call finds or leaves it, and of no sum being exact.
  The only vector operation the sources use is the scalar product \<open>compass * -1\<close>, which
  builds a new vector.
\<close>

type_synonym Vector2 = "real \<times> real"

definition scale :: "Vector2 \<Rightarrow> real \<Rightarrow> Vector2" where
  "scale v k = (fst v * k, snd v * k)"

text \<open>
  \<open>pygame.Rect\<close>: integer position and size. \<open>centerx\<close> is \<open>x + w // 2\<close> and
  \<open>centery\<close> is \<open>y + h // 2\<close>; assigning \<open>center\<close> moves the rectangle so that its center
  is the given point and keeps its size; \<open>move_ip\<close> adds an offset to the position, in
  place. Coordinates are screen-sized, far from the bounds of the C integers pygame
  stores them in, and are taken as integers.
\<close>

record Rect =
  rect_x :: int
  rect_y :: int
  rect_w :: int
  rect_h :: int

definition centerx :: "Rect \<Rightarrow> int" where
  "centerx r = rect_x r + rect_w r div 2"

definition centery :: "Rect \<Rightarrow> int" where
  "centery r = rect_y r + rect_h r div 2"

definition center :: "Rect \<Rightarrow> int \<times> int" where
  "center r = (centerx r, centery r)"

definition topleft :: "Rect \<Rightarrow> int \<times> int" where
  "topleft r = (rect_x r, rect_y r)"

definition set_center :: "int \<times> int \<Rightarrow> Rect \<Rightarrow> Rect" where
  "set_center c r = r\<lparr>rect_x := fst c - rect_w r div 2, rect_y := snd c - rect_h r div 2\<rparr>"

definition move_ip :: "int \<Rightarrow> int \<Rightarrow> Rect \<Rightarrow> Rect" where
  "move_ip dx dy r = r\<lparr>rect_x := rect_x r + dx, rect_y := rect_y r + dy\<rparr>"

text \<open>\<open>inflate\<close> returns a new rectangle, grown around the same center.\<close>

definition inflate :: "int \<Rightarrow> int \<Rightarrow> Rect \<Rightarrow> Rect" where
  "inflate dw dh r =
     \<lparr>rect_x = rect_x r - dw div 2, rect_y = rect_y r - dh div 2,
      rect_w = rect_w r + dw, rect_h = rect_h r + dh\<rparr>"

text \<open>
  The dictionary \<open>movementTracker\<close> always has exactly the keys \<open>"vertical"\<close> and
  \<open>"horizontal"\<close>; its values are floats, idealised as above.
\<close>

record Tracker =
  vertical :: real
  horizontal :: real

text \<open>
  A \<open>Tile\<close> object. \<open>rect\<close> and \<open>hitbox\<close> hold references to \<open>Rect\<close> objects: \<open>set_tile\<close>
  binds both attributes to one object, \<open>Damsel.__init__\<close> to two. \<open>Tile.__init__\<close> binds
  neither, so the record is a tile after \<open>set_tile\<close> or a subclass constructor has bound
  them. \<open>image\<close> keeps the size of the surface, which is all \<open>get_rect\<close> reads.
  \<open>speed\<close> is the attribute of the subclass \<open>Entity\<close> that \<open>camera_update\<close> and
  \<open>Damsel.update\<close> read. Each tile owns its \<open>compass\<close> vector and its tracker
  (\<open>Tile.__init__\<close> creates both), so they are fields by value.
\<close>

record Tile =
  compass :: Vector2
  movementTracker :: Tracker
  rect :: nat
  hitbox :: nat
  image :: "int \<times> int"
  speed :: int

text \<open>
  The store: sprite objects and \<open>Rect\<close> objects by identity, and the next unused
  \<open>Rect\<close> identity.
\<close>

record world =
  tiles :: "nat \<Rightarrow> Tile"
  rects :: "nat \<Rightarrow> Rect"
  next_rect :: nat

definition update_tile :: "nat \<Rightarrow> (Tile \<Rightarrow> Tile) \<Rightarrow> world \<Rightarrow> world" where
  "update_tile self f w = w\<lparr>tiles := (tiles w)(self := f (tiles w self))\<rparr>"

definition update_rect :: "nat \<Rightarrow> (Rect \<Rightarrow> Rect) \<Rightarrow> world \<Rightarrow> world" where
  "update_rect r f w = w\<lparr>rects := (rects w)(r := f (rects w r))\<rparr>"

definition render_rect :: "nat \<Rightarrow> world \<Rightarrow> Rect" where
  "render_rect self w = rects w (rect (tiles w self))"

definition hitbox_rect :: "nat \<Rightarrow> world \<Rightarrow> Rect" where
  "hitbox_rect self w = rects w (hitbox (tiles w self))"

section \<open>Tile\<close>

subsection \<open>Low-level shifts\<close>

text \<open>
  \<open>self.rect.move_ip(move_pixels_x, move_pixels_y)\<close> followed by
  \<open>self.hitbox.center = self.rect.center\<close>.
\<close>

definition shift :: "nat \<Rightarrow> int \<Rightarrow> int \<Rightarrow> world \<Rightarrow> world" where
  "shift self move_pixels_x move_pixels_y w =
     (let w1 = update_rect (rect (tiles w self)) (move_ip move_pixels_x move_pixels_y) w
      in update_rect (hitbox (tiles w1 self)) (set_center (center (render_rect self w1))) w1)"

definition internal_move_left :: "nat \<Rightarrow> int \<Rightarrow> world \<Rightarrow> world" where
  "internal_move_left self speed_arg w = shift self (-1 * speed_arg) 0 w"

definition internal_move_right :: "nat \<Rightarrow> int \<Rightarrow> world \<Rightarrow> world" where
  "internal_move_right self speed_arg w = shift self speed_arg 0 w"

definition internal_move_up :: "nat \<Rightarrow> int \<Rightarrow> world \<Rightarrow> world" where
  "internal_move_up self speed_arg w = shift self 0 (-1 * speed_arg) w"

definition internal_move_down :: "nat \<Rightarrow> int \<Rightarrow> world \<Rightarrow> world" where
  "internal_move_down self speed_arg w = shift self 0 speed_arg w"

subsection \<open>The accumulator and \<open>move\<close>\<close>

definition update_movement_tracker :: "nat \<Rightarrow> world \<Rightarrow> world" where
  "update_movement_tracker self w =
     update_tile self (\<lambda>t. t\<lparr>movementTracker :=
        \<lparr>vertical = vertical (movementTracker t) + snd (compass t),
         horizontal = horizontal (movementTracker t) + fst (compass t)\<rparr>\<rparr>) w"

definition add_vertical :: "nat \<Rightarrow> int \<Rightarrow> world \<Rightarrow> world" where
  "add_vertical self d w =
     update_tile self (\<lambda>t. t\<lparr>movementTracker :=
        (movementTracker t)\<lparr>vertical := vertical (movementTracker t) + real_of_int d\<rparr>\<rparr>) w"

definition add_horizontal :: "nat \<Rightarrow> int \<Rightarrow> world \<Rightarrow> world" where
  "add_horizontal self d w =
     update_tile self (\<lambda>t. t\<lparr>movementTracker :=
        (movementTracker t)\<lparr>horizontal := horizontal (movementTracker t) + real_of_int d\<rparr>\<rparr>) w"

definition move :: "nat \<Rightarrow> int \<Rightarrow> world \<Rightarrow> world" where
  "move self speed_arg w =
     (let w1 = update_movement_tracker self w;
          up = Direction_up; down = Direction_down;
          left = Direction_left; right = Direction_right;
          w2 = (if vertical (movementTracker (tiles w1 self)) \<le> real_of_int up
                then add_vertical self down (internal_move_up self speed_arg w1)
                else if vertical (movementTracker (tiles w1 self)) \<ge> real_of_int down
                then add_vertical self up (internal_move_down self speed_arg w1)
                else w1)
      in (if horizontal (movementTracker (tiles w2 self)) \<le> real_of_int left
          then add_horizontal self right (internal_move_left self speed_arg w2)
          else if horizontal (movementTracker (tiles w2 self)) \<ge> real_of_int right
          then add_horizontal self left (internal_move_right self speed_arg w2)
          else w2))"

subsection \<open>Directional moves\<close>

definition set_compass :: "nat \<Rightarrow> Vector2 \<Rightarrow> world \<Rightarrow> world" where
  "set_compass self v w = update_tile self (\<lambda>t. t\<lparr>compass := v\<rparr>) w"

definition set_compass_x :: "nat \<Rightarrow> real \<Rightarrow> world \<Rightarrow> world" where
  "set_compass_x self v w = update_tile self (\<lambda>t. t\<lparr>compass := (v, snd (compass t))\<rparr>) w"

definition set_compass_y :: "nat \<Rightarrow> real \<Rightarrow> world \<Rightarrow> world" where
  "set_compass_y self v w = update_tile self (\<lambda>t. t\<lparr>compass := (fst (compass t), v)\<rparr>) w"

definition move_right :: "nat \<Rightarrow> int \<Rightarrow> world \<Rightarrow> world" where
  "move_right self speed_arg w =
     internal_move_right self speed_arg
       (set_compass_y self 0 (set_compass_x self (real_of_int Direction_right) w))"

definition move_left :: "nat \<Rightarrow> int \<Rightarrow> world \<Rightarrow> world" where
  "move_left self speed_arg w =
     internal_move_left self speed_arg
       (set_compass_y self 0 (set_compass_x self (real_of_int Direction_right) w))"

definition move_up :: "nat \<Rightarrow> int \<Rightarrow> world \<Rightarrow> world" where
  "move_up self speed_arg w =
     internal_move_up self speed_arg
       (set_compass_y self (real_of_int Direction_up) (set_compass_x self 0 w))"

definition move_down :: "nat \<Rightarrow> int \<Rightarrow> world \<Rightarrow> world" where
  "move_down self speed_arg w =
     internal_move_down self speed_arg
       (set_compass_y self (real_of_int Direction_down) (set_compass_x self 0 w))"

subsection \<open>\<open>set_tile\<close>\<close>

text \<open>
  \<open>self.image.get_rect(topleft=coords)\<close> creates a new \<open>Rect\<close> of the surface's size at
  \<open>coords\<close>; \<open>self.hitbox = self.rect\<close> binds the same object a second time.
\<close>

definition set_tile :: "nat \<Rightarrow> int \<times> int \<Rightarrow> int \<times> int \<Rightarrow> world \<Rightarrow> world" where
  "set_tile self coords surface w =
     (let r = next_rect w;
          w1 = w\<lparr>rects := (rects w)(r :=
                   \<lparr>rect_x = fst coords, rect_y = snd coords,
                    rect_w = fst surface, rect_h = snd surface\<rparr>),
                 next_rect := Suc r\<rparr>
      in update_tile self (\<lambda>t. t\<lparr>image := surface, rect := r, hitbox := r\<rparr>) w1)"

section \<open>Damsel\<close>

definition SPRITE_WIDTH :: int where
  "SPRITE_WIDTH = 16"

definition SPRITE_HEIGHT :: int where
  "SPRITE_HEIGHT = 20"

text \<open>
  The part of \<open>Damsel.__init__\<close> that sets up movement: the heading and the accumulator
  of \<open>Tile.__init__\<close>, the image cut from the sprite sheet, the render rectangle at
  \<open>pos\<close> and a hitbox that is a new, less tall rectangle (\<open>self.rect.inflate(0, -10)\<close>).
\<close>

definition Damsel_init :: "nat \<Rightarrow> int \<times> int \<Rightarrow> world \<Rightarrow> world" where
  "Damsel_init self pos w =
     (let r = next_rect w;
          h = Suc r;
          new_rect = \<lparr>rect_x = fst pos, rect_y = snd pos,
                      rect_w = SPRITE_WIDTH, rect_h = SPRITE_HEIGHT\<rparr>;
          w1 = w\<lparr>rects := (rects w)(r := new_rect, h := inflate 0 (-10) new_rect),
                 next_rect := Suc h\<rparr>
      in update_tile self (\<lambda>t. t\<lparr>compass := (0, 0),
            movementTracker := \<lparr>vertical = 0, horizontal = 0\<rparr>,
            image := (SPRITE_WIDTH, SPRITE_HEIGHT), rect := r, hitbox := h\<rparr>) w1)"

text \<open>
  The body of \<open>Damsel.collision_handler\<close> is a bare \<open>return\<close>: the result is
  \<open>None\<close> and the state is the one it was called in. The extension of the record stands
  for whatever state the model leaves out (animation frames, timers, group memberships).
\<close>

definition collision_handler :: "nat \<Rightarrow> string \<Rightarrow> 'a world_scheme \<Rightarrow> 'a world_scheme" where
  "collision_handler self direction w = w"

section \<open>CameraManager\<close>

text \<open>
  A \<open>pygame.sprite.Group\<close> holds each sprite once; \<open>sprites()\<close> lists them.
  \<open>playerCharacter\<close> is a reference to the player's sprite object.
\<close>

record CameraManager =
  sprites :: "nat list"
  playerCharacter :: nat
  offset :: Vector2
  halfWidth :: int
  halfHeight :: int

text \<open>
  \<open>sorted(self.sprites(), key=...)\<close>: Python computes the key of every sprite before the
  loop starts and sorts stably, as \<open>sort_key\<close> does.
\<close>

definition camera_order :: "CameraManager \<Rightarrow> world \<Rightarrow> nat list" where
  "camera_order cam w = sort_key (\<lambda>sprite. centery (render_rect sprite w)) (sprites cam)"

text \<open>The body of the loop, for one sprite.\<close>

definition camera_step :: "CameraManager \<Rightarrow> nat \<Rightarrow> world \<Rightarrow> world" where
  "camera_step cam sprite w =
     (let prevDirection = compass (tiles w sprite);
          w1 = set_compass sprite (scale (compass (tiles w (playerCharacter cam))) (-1)) w;
          w2 = move sprite (speed (tiles w1 (playerCharacter cam))) w1
      in set_compass sprite prevDirection w2)"

definition camera_update :: "CameraManager \<Rightarrow> world \<Rightarrow> world" where
  "camera_update cam w = fold (camera_step cam) (camera_order cam w) w"

text \<open>
  The \<open>Rect\<close> objects a sprite refers to, and what a sprite's own attributes hold: its
  fields, its render rectangle and its collision rectangle.
\<close>

definition rect_refs :: "nat \<Rightarrow> world \<Rightarrow> nat set" where
  "rect_refs sprite w = {rect (tiles w sprite), hitbox (tiles w sprite)}"

definition sprite_view :: "nat \<Rightarrow> world \<Rightarrow> Tile \<times> Rect \<times> Rect" where
  "sprite_view sprite w = (tiles w sprite, render_rect sprite w, hitbox_rect sprite w)"

section \<open>Sequences of calls\<close>

datatype call =
    Move int
  | Internal_move_left int
  | Internal_move_right int
  | Internal_move_up int
  | Internal_move_down int
  | Move_left int
  | Move_right int
  | Move_up int
  | Move_down int

fun run_call :: "nat \<Rightarrow> call \<Rightarrow> world \<Rightarrow> world" where
  "run_call self (Move s) w = move self s w"
| "run_call self (Internal_move_left s) w = internal_move_left self s w"
| "run_call self (Internal_move_right s) w = internal_move_right self s w"
| "run_call self (Internal_move_up s) w = internal_move_up self s w"
| "run_call self (Internal_move_down s) w = internal_move_down self s w"
| "run_call self (Move_left s) w = move_left self s w"
| "run_call self (Move_right s) w = move_right self s w"
| "run_call self (Move_up s) w = move_up self s w"
| "run_call self (Move_down s) w = move_down self s w"

definition run_calls :: "nat \<Rightarrow> call list \<Rightarrow> world \<Rightarrow> world" where
  "run_calls self cs w = fold (run_call self) cs w"

section \<open>Example states\<close>

definition empty_world :: world where
  "empty_world =
     \<lparr>tiles = (\<lambda>_. \<lparr>compass = (0, 0), movementTracker = \<lparr>vertical = 0, horizontal = 0\<rparr>,
                      rect = 0, hitbox = 0, image = (0, 0), speed = 0\<rparr>),
      rects = (\<lambda>_. \<lparr>rect_x = 0, rect_y = 0, rect_w = 0, rect_h = 0\<rparr>),
      next_rect = 0\<rparr>"

text \<open>A terrain tile of 32 by 32 pixels at (100, 100), heading right.\<close>

definition tile_at_100 :: world where
  "tile_at_100 = set_compass 0 (1, 0) (set_tile 0 (100, 100) (32, 32) empty_world)"

text \<open>A damsel at (100, 100), heading right.\<close>

definition damsel_at_100 :: world where
  "damsel_at_100 = set_compass 0 (1, 0) (Damsel_init 0 (100, 100) empty_world)"

text \<open>
  The tile after one move under the heading \<open>(-1/2, 0)\<close>: its horizontal accumulator is
  \<open>-1/2\<close>, its vertical accumulator 0.
\<close>

definition half_left :: world where
  "half_left = move 0 4 (set_compass 0 (- 1 / 2, 0) (set_tile 0 (100, 100) (32, 32) empty_world))"

text \<open>
  A scene: a damsel (sprite 0) at (100, 100), a terrain tile (sprite 1) at (50, 40) and
  the player (sprite 2) at (200, 200), heading right at speed 4. The camera manages all
  three.
\<close>

definition scene :: world where
  "scene =
     update_tile 2 (\<lambda>t. t\<lparr>compass := (1, 0), speed := 4\<rparr>)
       (Damsel_init 2 (200, 200)
         (set_tile 1 (50, 40) (32, 32)
           (Damsel_init 0 (100, 100) empty_world)))"

definition scene_camera :: CameraManager where
  "scene_camera =
     \<lparr>sprites = [0, 1, 2], playerCharacter = 2, offset = (0, 0),
      halfWidth = 640, halfHeight = 360\<rparr>"

section \<open>Facts about the store\<close>

lemmas store_defs = update_tile_def update_rect_def render_rect_def hitbox_rect_def
lemmas rect_defs = center_def centerx_def centery_def set_center_def move_ip_def topleft_def
lemmas internal_defs = internal_move_left_def internal_move_right_def
  internal_move_up_def internal_move_down_def
lemmas Direction_defs = Direction_up_def Direction_down_def Direction_left_def Direction_right_def

lemma tiles_update_rect [simp]: "tiles (update_rect r f w) = tiles w"
  by (simp add: update_rect_def)

lemma rects_update_tile [simp]: "rects (update_tile s f w) = rects w"
  by (simp add: update_tile_def)

lemma tiles_update_tile: "tiles (update_tile s f w) = (tiles w)(s := f (tiles w s))"
  by (simp add: update_tile_def)

lemma rects_update_rect: "rects (update_rect r f w) = (rects w)(r := f (rects w r))"
  by (simp add: update_rect_def)

lemma next_rect_update [simp]:
  "next_rect (update_rect r f w) = next_rect w" "next_rect (update_tile s g w) = next_rect w"
  by (simp_all add: update_rect_def update_tile_def)

lemma tiles_shift [simp]: "tiles (shift self dx dy w) = tiles w"
  by (simp add: shift_def Let_def)

lemma set_center_own: "set_center (center r) r = r"
  by (simp add: rect_defs)

lemma center_set_center: "center (set_center c r) = c"
  by (simp add: rect_defs)

lemma render_rect_shift:
  "render_rect self (shift self dx dy w) = move_ip dx dy (render_rect self w)"
  by (simp add: shift_def Let_def render_rect_def rects_update_rect set_center_own)

lemma shift_center:
  "center (hitbox_rect self (shift self dx dy w)) = center (render_rect self (shift self dx dy w))"
  by (simp add: shift_def Let_def render_rect_def hitbox_rect_def rects_update_rect set_center_own center_set_center)

lemma rects_shift_other:
  "r \<noteq> rect (tiles w self) \<Longrightarrow> r \<noteq> hitbox (tiles w self) \<Longrightarrow> rects (shift self dx dy w) r = rects w r"
  by (simp add: shift_def Let_def rects_update_rect)


section \<open>Facts about \<open>move\<close>\<close>

lemmas move_defs = move_def Let_def internal_defs add_vertical_def add_horizontal_def
  update_movement_tracker_def

lemma move_other_tile: "x \<noteq> self \<Longrightarrow> tiles (move self s w) x = tiles w x"
  by (simp add: move_defs tiles_update_tile)

lemma move_tile_fields:
  "compass (tiles (move self s w) x) = compass (tiles w x)"
  "rect (tiles (move self s w) x) = rect (tiles w x)"
  "hitbox (tiles (move self s w) x) = hitbox (tiles w x)"
  "speed (tiles (move self s w) x) = speed (tiles w x)"
  "image (tiles (move self s w) x) = image (tiles w x)"
  by (simp_all add: move_defs tiles_update_tile)

lemma rects_shift_rect:
  "r = rect (tiles w self) \<Longrightarrow> rects (shift self dx dy w) r = move_ip dx dy (rects w r)"
  using render_rect_shift [of self dx dy w] by (simp add: render_rect_def)

lemma rect_x_move:
  "rect_x (render_rect self (move self s w)) =
     rect_x (render_rect self w) +
     (let h = horizontal (movementTracker (tiles w self)) + fst (compass (tiles w self))
      in if h \<le> real_of_int Direction_left then - s
         else if real_of_int Direction_right \<le> h then s else 0)"
  by (simp add: move_defs rects_shift_rect tiles_update_tile move_ip_def render_rect_def)

lemma rect_y_move:
  "rect_y (render_rect self (move self s w)) =
     rect_y (render_rect self w) +
     (let v = vertical (movementTracker (tiles w self)) + snd (compass (tiles w self))
      in if v \<le> real_of_int Direction_up then - s
         else if real_of_int Direction_down \<le> v then s else 0)"
  by (simp add: move_defs rects_shift_rect tiles_update_tile move_ip_def render_rect_def)


section \<open>The claims about \<open>Tile\<close>\<close>



lemmas example_defs = tile_at_100_def damsel_at_100_def empty_world_def set_tile_def
  Damsel_init_def set_compass_def inflate_def SPRITE_WIDTH_def SPRITE_HEIGHT_def


text \<open>
  C5. A sprite whose render rectangle is at (100, 100), with heading (1, 0) and both
  accumulator components 0: one \<open>move(4)\<close> takes the horizontal accumulator to 1, which
  reaches the right threshold, moves the render rectangle to (104, 100) and leaves the
  accumulator at 0 again.
\<close>

theorem move_example_right_speed_4:
  assumes "topleft (render_rect self w) = (100, 100)"
    and "compass (tiles w self) = (1, 0)"
    and "movementTracker (tiles w self) = \<lparr>vertical = 0, horizontal = 0\<rparr>"
  shows "horizontal (movementTracker (tiles (update_movement_tracker self w) self)) = 1
     \<and> real_of_int Direction_right
         \<le> horizontal (movementTracker (tiles (update_movement_tracker self w) self))
     \<and> topleft (render_rect self (move self 4 w)) = (104, 100)
     \<and> movementTracker (tiles (move self 4 w) self) = \<lparr>vertical = 0, horizontal = 0\<rparr>"
proof -
  have acc: "horizontal (movementTracker (tiles (update_movement_tracker self w) self)) = 1"
    using assms by (simp add: update_movement_tracker_def tiles_update_tile)
  have pos: "topleft (render_rect self (move self 4 w)) = (104, 100)"
    using assms by (simp add: topleft_def rect_x_move rect_y_move Direction_defs)
  have relax: "movementTracker (tiles (move self 4 w) self) = \<lparr>vertical = 0, horizontal = 0\<rparr>"
    using assms by (simp add: move_defs tiles_update_tile Direction_defs)
  show ?thesis using acc pos relax by (simp add: Direction_defs)
qed

theorem move_example_right_speed_4_witness:
  "topleft (render_rect 0 damsel_at_100) = (100, 100)
   \<and> compass (tiles damsel_at_100 0) = (1, 0)
   \<and> movementTracker (tiles damsel_at_100 0) = \<lparr>vertical = 0, horizontal = 0\<rparr>
   \<and> topleft (render_rect 0 (move 0 4 damsel_at_100)) = (104, 100)
   \<and> movementTracker (tiles (move 0 4 damsel_at_100) 0) = \<lparr>vertical = 0, horizontal = 0\<rparr>"
proof -
  have h1: "topleft (render_rect 0 damsel_at_100) = (100, 100)"
    by (simp add: example_defs store_defs topleft_def Let_def)
  have h2: "compass (tiles damsel_at_100 0) = (1, 0)"
    by (simp add: example_defs store_defs Let_def)
  have h3: "movementTracker (tiles damsel_at_100 0) = \<lparr>vertical = 0, horizontal = 0\<rparr>"
    by (simp add: example_defs store_defs Let_def)
  show ?thesis using move_example_right_speed_4 [OF h1 h2 h3] h1 h2 h3 by simp
qed

text \<open>
  C6. After each of \<open>_move_left\<close>, \<open>_move_right\<close>, \<open>_move_up\<close> and \<open>_move_down\<close>, for
  every speed and every state, the center of the collision rectangle is the center of
  the render rectangle.
\<close>

theorem internal_moves_keep_centers_equal:
  "center (hitbox_rect self (internal_move_left self speed_arg w))
     = center (render_rect self (internal_move_left self speed_arg w))
   \<and> center (hitbox_rect self (internal_move_right self speed_arg w))
     = center (render_rect self (internal_move_right self speed_arg w))
   \<and> center (hitbox_rect self (internal_move_up self speed_arg w))
     = center (render_rect self (internal_move_up self speed_arg w))
   \<and> center (hitbox_rect self (internal_move_down self speed_arg w))
     = center (render_rect self (internal_move_down self speed_arg w))"
  by (simp add: internal_defs shift_center)

lemmas directional_defs = move_left_def move_right_def move_up_def move_down_def
  set_compass_x_def set_compass_y_def

text \<open>
  C8. After \<open>move_left(speed1)\<close> and then \<open>move_up(speed2)\<close> the heading is \<open>(0, up)\<close>,
  for every two speeds and every state: nothing of the earlier call's heading is kept.
\<close>

theorem move_left_then_move_up_heading:
  "compass (tiles (move_up self speed2 (move_left self speed1 w)) self)
     = (0, real_of_int Direction_up)"
  by (simp add: directional_defs internal_defs tiles_update_tile)

text \<open>
  C1. \<open>move_left\<close> assigns \<open>Direction.right\<close> to \<open>compass.x\<close>: on a fresh tile at
  (100, 100), \<open>move_left(4)\<close> moves the rectangle left to (96, 100) and leaves the heading
  pointing right, not left. The other three directional calls set the heading of their
  own direction (\<open>directional_headings\<close>).
\<close>

theorem move_left_sets_heading_right:
  "compass (tiles (move_left 0 4 (set_tile 0 (100, 100) (32, 32) empty_world)) 0)
     = (real_of_int Direction_right, 0)
   \<and> compass (tiles (move_left 0 4 (set_tile 0 (100, 100) (32, 32) empty_world)) 0)
     \<noteq> (real_of_int Direction_left, 0)
   \<and> topleft (render_rect 0 (move_left 0 4 (set_tile 0 (100, 100) (32, 32) empty_world)))
     = (96, 100)"
  by (simp add: directional_defs internal_defs shift_def store_defs rect_defs Direction_defs
      example_defs Let_def)

lemma directional_headings:
  "compass (tiles (move_right self s w) self) = (real_of_int Direction_right, 0)"
  "compass (tiles (move_up self s w) self) = (0, real_of_int Direction_up)"
  "compass (tiles (move_down self s w) self) = (0, real_of_int Direction_down)"
  by (simp_all add: directional_defs internal_defs tiles_update_tile)

section \<open>The claim about \<open>Damsel\<close>\<close>

text \<open>
  C10. \<open>collision_handler\<close> returns, for every direction argument, the state it was
  called in: positions, hitboxes, headings, accumulators and everything else the state
  holds.
\<close>

theorem collision_handler_no_op:
  "collision_handler self direction w = w"
  by (simp add: collision_handler_def)

section \<open>The tile after \<open>set_tile\<close>\<close>

lemma internal_tile_fields:
  "tiles (internal_move_left self s w) = tiles w"
  "tiles (internal_move_right self s w) = tiles w"
  "tiles (internal_move_up self s w) = tiles w"
  "tiles (internal_move_down self s w) = tiles w"
  by (simp_all add: internal_defs)

lemma run_call_refs:
  "rect (tiles (run_call self c w) x) = rect (tiles w x)
   \<and> hitbox (tiles (run_call self c w) x) = hitbox (tiles w x)"
  by (cases c) (simp_all add: move_tile_fields internal_tile_fields directional_defs tiles_update_tile)

lemma run_calls_refs:
  "rect (tiles (run_calls self cs w) x) = rect (tiles w x)
   \<and> hitbox (tiles (run_calls self cs w) x) = hitbox (tiles w x)"
  unfolding run_calls_def
  by (induction cs arbitrary: w) (simp_all add: run_call_refs)

lemma set_tile_refs:
  "rect (tiles (set_tile self coords surface w) self) = next_rect w"
  "hitbox (tiles (set_tile self coords surface w) self) = next_rect w"
  by (simp_all add: set_tile_def Let_def tiles_update_tile)

text \<open>
  C9. \<open>set_tile\<close> binds \<open>hitbox\<close> to the very \<open>Rect\<close> object it binds \<open>rect\<close> to, and no
  call of \<open>move\<close>, of a \<open>_move_*\<close> primitive or of a directional \<open>move_*\<close> rebinds either
  attribute: after any sequence of such calls the two attributes still name one object,
  so the hitbox is the render rectangle, with the same top-left corner and the same size.
\<close>

theorem set_tile_hitbox_is_rect:
  "hitbox (tiles (run_calls self cs (set_tile self coords surface w)) self)
     = rect (tiles (run_calls self cs (set_tile self coords surface w)) self)
   \<and> hitbox_rect self (run_calls self cs (set_tile self coords surface w))
     = render_rect self (run_calls self cs (set_tile self coords surface w))
   \<and> topleft (hitbox_rect self (run_calls self cs (set_tile self coords surface w)))
     = topleft (render_rect self (run_calls self cs (set_tile self coords surface w)))
   \<and> rect_w (hitbox_rect self (run_calls self cs (set_tile self coords surface w)))
     = rect_w (render_rect self (run_calls self cs (set_tile self coords surface w)))
   \<and> rect_h (hitbox_rect self (run_calls self cs (set_tile self coords surface w)))
     = rect_h (render_rect self (run_calls self cs (set_tile self coords surface w)))"
  by (simp add: hitbox_rect_def render_rect_def run_calls_refs set_tile_refs)


section \<open>Directional moves against \<open>move\<close>\<close>

lemma tracker_move:
  "movementTracker (tiles (move self s w) self) =
     \<lparr>vertical =
        (let v = vertical (movementTracker (tiles w self)) + snd (compass (tiles w self))
         in if v \<le> real_of_int Direction_up then v + real_of_int Direction_down
            else if real_of_int Direction_down \<le> v then v + real_of_int Direction_up else v),
      horizontal =
        (let h = horizontal (movementTracker (tiles w self)) + fst (compass (tiles w self))
         in if h \<le> real_of_int Direction_left then h + real_of_int Direction_right
            else if real_of_int Direction_right \<le> h then h + real_of_int Direction_left else h)\<rparr>"
  by (simp add: move_defs tiles_update_tile)

lemma tracker_directional:
  "movementTracker (tiles (move_right self s w) self) = movementTracker (tiles w self)"
  "movementTracker (tiles (move_left self s w) self) = movementTracker (tiles w self)"
  "movementTracker (tiles (move_up self s w) self) = movementTracker (tiles w self)"
  "movementTracker (tiles (move_down self s w) self) = movementTracker (tiles w self)"
  by (simp_all add: directional_defs internal_defs tiles_update_tile)

lemma tracker_set_compass [simp]:
  "movementTracker (tiles (set_compass self c w) x) = movementTracker (tiles w x)"
  by (simp add: set_compass_def tiles_update_tile)

lemma compass_set_compass [simp]:
  "compass (tiles (set_compass self c w) self) = c"
  by (simp add: set_compass_def tiles_update_tile)

lemma render_rect_set_compass [simp]:
  "render_rect x (set_compass self c w) = render_rect x w"
  by (simp add: set_compass_def render_rect_def tiles_update_tile)

lemma set_compass_twice [simp]:
  "set_compass self c (set_compass self d w) = set_compass self c w"
  by (simp add: set_compass_def update_tile_def)

lemma set_compass_xy:
  "set_compass_y self b (set_compass_x self a w) = set_compass self (a, b) w"
  by (simp add: set_compass_def set_compass_x_def set_compass_y_def update_tile_def)

lemma set_compass_shift:
  "set_compass self c (shift self dx dy w) = shift self dx dy (set_compass self c w)"
  by (simp add: set_compass_def shift_def Let_def update_tile_def update_rect_def render_rect_def)

lemma update_tile_id: "f (tiles w self) = tiles w self \<Longrightarrow> update_tile self f w = w"
  by (simp add: update_tile_def)

lemma update_tile_fuse:
  "update_tile self f (update_tile self g w) = update_tile self (\<lambda>t. f (g t)) w"
  by (simp add: update_tile_def)

lemma shift_update_tile:
  assumes "rect (f (tiles w x)) = rect (tiles w x)"
    and "hitbox (f (tiles w x)) = hitbox (tiles w x)"
  shows "shift self dx dy (update_tile x f w) = update_tile x f (shift self dx dy w)"
  using assms
  by (simp add: shift_def Let_def update_tile_def update_rect_def render_rect_def)

lemma move_normal_form:
  "move self s w =
     (let v = vertical (movementTracker (tiles w self)) + snd (compass (tiles w self));
          h = horizontal (movementTracker (tiles w self)) + fst (compass (tiles w self));
          w2 = (if v \<le> real_of_int Direction_up then shift self 0 (- s) w
                else if real_of_int Direction_down \<le> v then shift self 0 s w else w);
          w3 = (if h \<le> real_of_int Direction_left then shift self (- s) 0 w2
                else if real_of_int Direction_right \<le> h then shift self s 0 w2 else w2)
      in update_tile self (\<lambda>t. t\<lparr>movementTracker :=
           \<lparr>vertical = (if v \<le> real_of_int Direction_up then v + real_of_int Direction_down
                         else if real_of_int Direction_down \<le> v
                         then v + real_of_int Direction_up else v),
            horizontal = (if h \<le> real_of_int Direction_left then h + real_of_int Direction_right
                         else if real_of_int Direction_right \<le> h
                         then h + real_of_int Direction_left else h)\<rparr>\<rparr>) w3)"
  by (simp add: move_defs shift_update_tile update_tile_fuse tiles_update_tile
      cong: if_cong)

lemma directional_as_shift:
  "move_right self s w = shift self s 0 (set_compass self (real_of_int Direction_right, 0) w)"
  "move_left self s w = shift self (- s) 0 (set_compass self (real_of_int Direction_right, 0) w)"
  "move_up self s w = shift self 0 (- s) (set_compass self (0, real_of_int Direction_up) w)"
  "move_down self s w = shift self 0 s (set_compass self (0, real_of_int Direction_down) w)"
  by (simp_all add: directional_defs internal_defs set_compass_xy [unfolded set_compass_x_def set_compass_y_def])

lemma directional_is_shift:
  "move_right self s w
     = internal_move_right self s (set_compass self (real_of_int Direction_right, 0) w)"
  "move_up self s w = internal_move_up self s (set_compass self (0, real_of_int Direction_up) w)"
  "move_down self s w
     = internal_move_down self s (set_compass self (0, real_of_int Direction_down) w)"
  "set_compass self c (move_left self s w) = set_compass self c (internal_move_left self s w)"
  by (simp_all add: directional_as_shift internal_defs set_compass_shift)

lemma move_right_at_rest:
  assumes "horizontal (movementTracker (tiles w self)) = 0"
    and "real_of_int Direction_up < vertical (movementTracker (tiles w self))"
    and "vertical (movementTracker (tiles w self)) < real_of_int Direction_down"
  shows "move_right self s w = move self s (set_compass self (real_of_int Direction_right, 0) w)"
  using assms
  by (simp add: directional_as_shift move_normal_form Direction_defs update_tile_id)

lemma move_left_at_rest:
  assumes "horizontal (movementTracker (tiles w self)) = 0"
    and "real_of_int Direction_up < vertical (movementTracker (tiles w self))"
    and "vertical (movementTracker (tiles w self)) < real_of_int Direction_down"
  shows "set_compass self c (move_left self s w)
     = set_compass self c (move self s (set_compass self (real_of_int Direction_left, 0) w))"
  using assms
  by (simp add: directional_as_shift move_normal_form Direction_defs update_tile_id
      set_compass_shift)

lemma move_up_at_rest:
  assumes "vertical (movementTracker (tiles w self)) = 0"
    and "real_of_int Direction_left < horizontal (movementTracker (tiles w self))"
    and "horizontal (movementTracker (tiles w self)) < real_of_int Direction_right"
  shows "move_up self s w = move self s (set_compass self (0, real_of_int Direction_up) w)"
  using assms
  by (simp add: directional_as_shift move_normal_form Direction_defs update_tile_id)

lemma move_down_at_rest:
  assumes "vertical (movementTracker (tiles w self)) = 0"
    and "real_of_int Direction_left < horizontal (movementTracker (tiles w self))"
    and "horizontal (movementTracker (tiles w self)) < real_of_int Direction_right"
  shows "move_down self s w = move self s (set_compass self (0, real_of_int Direction_down) w)"
  using assms
  by (simp add: directional_as_shift move_normal_form Direction_defs update_tile_id)

text \<open>
  A tile driven through the calls of \<open>Tile\<close> alone has its accumulator at \<open>(0, 0)\<close> after
  every call: a heading with components in \<open>{-1, 0, 1}\<close> takes an accumulator component
  from 0 to a threshold or leaves it at 0, and the relaxation brings it back to 0.
\<close>

lemma run_call_at_rest:
  assumes "movementTracker (tiles w self) = \<lparr>vertical = 0, horizontal = 0\<rparr>"
    and "fst (compass (tiles w self)) \<in> {- 1, 0, 1}"
    and "snd (compass (tiles w self)) \<in> {- 1, 0, 1}"
  shows "movementTracker (tiles (run_call self c w) self) = \<lparr>vertical = 0, horizontal = 0\<rparr>
    \<and> fst (compass (tiles (run_call self c w) self)) \<in> {- 1, 0, 1}
    \<and> snd (compass (tiles (run_call self c w) self)) \<in> {- 1, 0, 1}"
proof (cases c)
  case (Move s)
  show ?thesis
    using assms unfolding Move
    by (auto simp: tracker_move move_tile_fields Direction_defs Let_def)
qed (use assms in \<open>simp_all add: internal_tile_fields tracker_directional directional_headings
      directional_defs internal_defs tiles_update_tile Direction_defs\<close>)

lemma run_calls_at_rest:
  assumes "movementTracker (tiles w self) = \<lparr>vertical = 0, horizontal = 0\<rparr>"
    and "fst (compass (tiles w self)) \<in> {- 1, 0, 1}"
    and "snd (compass (tiles w self)) \<in> {- 1, 0, 1}"
  shows "movementTracker (tiles (run_calls self cs w) self) = \<lparr>vertical = 0, horizontal = 0\<rparr>"
  using assms unfolding run_calls_def
proof (induction cs arbitrary: w)
  case Nil
  then show ?case by simp
next
  case (Cons c cs)
  show ?case
    using run_call_at_rest [OF Cons.prems, of c] by (simp add: Cons.IH)
qed

text \<open>
  C3, as the code has it. A directional call sets the heading and calls the low-level
  shift of its direction once; it does not call \<open>move\<close> and leaves the accumulator as it
  was. When the accumulator is 0 along the direction's axis and strictly between the two
  thresholds along the other axis (as it is at \<open>(0, 0)\<close>), \<open>move_right\<close>, \<open>move_up\<close> and
  \<open>move_down\<close> end in the state of "set the heading to the direction's unit vector, then
  \<open>move(speed)\<close>". For \<open>move_left\<close> this holds of everything but the heading of the tile:
  the two states are equal once the heading is overwritten by any one value \<open>c\<close>.
\<close>

theorem directional_move_is_shift:
  "move_right self speed_arg w
     = internal_move_right self speed_arg
         (set_compass self (real_of_int Direction_right, 0) w)
   \<and> move_up self speed_arg w
     = internal_move_up self speed_arg (set_compass self (0, real_of_int Direction_up) w)
   \<and> move_down self speed_arg w
     = internal_move_down self speed_arg (set_compass self (0, real_of_int Direction_down) w)
   \<and> set_compass self c (move_left self speed_arg w)
     = set_compass self c (internal_move_left self speed_arg w)
   \<and> movementTracker (tiles (move_right self speed_arg w) self) = movementTracker (tiles w self)
   \<and> movementTracker (tiles (move_left self speed_arg w) self) = movementTracker (tiles w self)
   \<and> movementTracker (tiles (move_up self speed_arg w) self) = movementTracker (tiles w self)
   \<and> movementTracker (tiles (move_down self speed_arg w) self) = movementTracker (tiles w self)
   \<and> (horizontal (movementTracker (tiles w self)) = 0
        \<and> real_of_int Direction_up < vertical (movementTracker (tiles w self))
        \<and> vertical (movementTracker (tiles w self)) < real_of_int Direction_down
      \<longrightarrow> move_right self speed_arg w
            = move self speed_arg (set_compass self (real_of_int Direction_right, 0) w)
        \<and> set_compass self c (move_left self speed_arg w)
            = set_compass self c
                (move self speed_arg (set_compass self (real_of_int Direction_left, 0) w)))
   \<and> (vertical (movementTracker (tiles w self)) = 0
        \<and> real_of_int Direction_left < horizontal (movementTracker (tiles w self))
        \<and> horizontal (movementTracker (tiles w self)) < real_of_int Direction_right
      \<longrightarrow> move_up self speed_arg w
            = move self speed_arg (set_compass self (0, real_of_int Direction_up) w)
        \<and> move_down self speed_arg w
            = move self speed_arg (set_compass self (0, real_of_int Direction_down) w))"
proof -
  have shifts:
    "move_right self speed_arg w
       = internal_move_right self speed_arg
           (set_compass self (real_of_int Direction_right, 0) w)"
    "move_up self speed_arg w
       = internal_move_up self speed_arg (set_compass self (0, real_of_int Direction_up) w)"
    "move_down self speed_arg w
       = internal_move_down self speed_arg (set_compass self (0, real_of_int Direction_down) w)"
    "set_compass self c (move_left self speed_arg w)
       = set_compass self c (internal_move_left self speed_arg w)"
    by (rule directional_is_shift)+
  have trackers:
    "movementTracker (tiles (move_right self speed_arg w) self) = movementTracker (tiles w self)"
    "movementTracker (tiles (move_left self speed_arg w) self) = movementTracker (tiles w self)"
    "movementTracker (tiles (move_up self speed_arg w) self) = movementTracker (tiles w self)"
    "movementTracker (tiles (move_down self speed_arg w) self) = movementTracker (tiles w self)"
    by (rule tracker_directional)+
  show ?thesis
    using shifts trackers
      move_right_at_rest [of w self speed_arg] move_left_at_rest [of w self c speed_arg]
      move_up_at_rest [of w self speed_arg] move_down_at_rest [of w self speed_arg]
    by blast
qed

theorem directional_move_is_shift_witness:
  "horizontal (movementTracker (tiles tile_at_100 0)) = 0
   \<and> vertical (movementTracker (tiles tile_at_100 0)) = 0
   \<and> move_right 0 4 tile_at_100
       = move 0 4 (set_compass 0 (real_of_int Direction_right, 0) tile_at_100)
   \<and> move_up 0 4 tile_at_100
       = move 0 4 (set_compass 0 (0, real_of_int Direction_up) tile_at_100)
   \<and> move_down 0 4 tile_at_100
       = move 0 4 (set_compass 0 (0, real_of_int Direction_down) tile_at_100)
   \<and> set_compass 0 (0, 0) (move_left 0 4 tile_at_100)
       = set_compass 0 (0, 0)
           (move 0 4 (set_compass 0 (real_of_int Direction_left, 0) tile_at_100))
   \<and> rect_x (render_rect 0 (move_right 0 4 tile_at_100)) = 104"
proof -
  have t: "movementTracker (tiles tile_at_100 0) = \<lparr>vertical = 0, horizontal = 0\<rparr>"
    by (simp add: example_defs store_defs Let_def)
  have pos: "rect_x (render_rect 0 tile_at_100) = 100"
    by (simp add: example_defs store_defs Let_def)
  have a: "rect_x (render_rect 0 (move_right 0 4 tile_at_100)) = 104"
    using pos by (simp add: directional_as_shift render_rect_shift move_ip_def)
  have h: "horizontal (movementTracker (tiles tile_at_100 0)) = 0"
    and v: "vertical (movementTracker (tiles tile_at_100 0)) = 0"
    using t by simp_all
  have hb: "real_of_int Direction_left < horizontal (movementTracker (tiles tile_at_100 0))"
    "horizontal (movementTracker (tiles tile_at_100 0)) < real_of_int Direction_right"
    and vb: "real_of_int Direction_up < vertical (movementTracker (tiles tile_at_100 0))"
    "vertical (movementTracker (tiles tile_at_100 0)) < real_of_int Direction_down"
    using t by (simp_all add: Direction_defs)
  show ?thesis
    using directional_move_is_shift [of 0 4 tile_at_100 "(0, 0)"] h v hb vb a
    by blast
qed

text \<open>
  C3 as the spec words it (for every starting state) fails for \<open>move_right(4)\<close> on the
  tile whose horizontal accumulator is \<open>-1/2\<close>: the directional call moves the rectangle
  to \<open>x = 104\<close>, while setting the heading and calling \<open>move(4)\<close> takes the accumulator to
  \<open>1/2\<close>, below the threshold, and leaves the rectangle at \<open>x = 100\<close>.
\<close>

theorem move_right_is_not_move_counterexample:
  "horizontal (movementTracker (tiles half_left 0)) = - 1 / 2
   \<and> rect_x (render_rect 0 half_left) = 100
   \<and> rect_x (render_rect 0 (move_right 0 4 half_left)) = 104
   \<and> rect_x (render_rect 0
         (move 0 4 (set_compass 0 (real_of_int Direction_right, 0) half_left))) = 100
   \<and> move_right 0 4 half_left
       \<noteq> move 0 4 (set_compass 0 (real_of_int Direction_right, 0) half_left)"
proof -
  have acc: "movementTracker (tiles half_left 0) = \<lparr>vertical = 0, horizontal = - 1 / 2\<rparr>"
    by (simp add: half_left_def tracker_move Direction_defs Let_def example_defs
        tiles_update_tile)
  have start: "rect_x (render_rect 0
      (set_compass 0 (- 1 / 2, 0) (set_tile 0 (100, 100) (32, 32) empty_world))) = 100"
    by (simp add: example_defs store_defs Let_def)
  have pos: "rect_x (render_rect 0 half_left) = 100"
    unfolding half_left_def rect_x_move start
    by (simp add: Direction_defs Let_def example_defs tiles_update_tile)
  have a: "rect_x (render_rect 0 (move_right 0 4 half_left)) = 104"
    using pos by (simp add: directional_as_shift render_rect_shift move_ip_def)
  have b: "rect_x (render_rect 0
      (move 0 4 (set_compass 0 (real_of_int Direction_right, 0) half_left))) = 100"
    using pos acc by (simp add: rect_x_move Direction_defs Let_def)
  from a b have "move_right 0 4 half_left
      \<noteq> move 0 4 (set_compass 0 (real_of_int Direction_right, 0) half_left)"
    by auto
  with acc pos a b show ?thesis by simp
qed

section \<open>The claims about \<open>CameraManager\<close>\<close>

lemma camera_step_alt:
  "camera_step cam s w =
     set_compass s (compass (tiles w s))
       (move s (speed (tiles w (playerCharacter cam)))
          (set_compass s (scale (compass (tiles w (playerCharacter cam))) (- 1)) w))"
  by (simp add: camera_step_def Let_def set_compass_def tiles_update_tile)

lemma camera_step_fields:
  "compass (tiles (camera_step cam s w) x) = compass (tiles w x)"
  "rect (tiles (camera_step cam s w) x) = rect (tiles w x)"
  "hitbox (tiles (camera_step cam s w) x) = hitbox (tiles w x)"
  "speed (tiles (camera_step cam s w) x) = speed (tiles w x)"
  by (simp_all add: camera_step_alt set_compass_def tiles_update_tile move_tile_fields)

lemma camera_step_other_tile:
  "x \<noteq> s \<Longrightarrow> tiles (camera_step cam s w) x = tiles w x"
  by (simp add: camera_step_alt set_compass_def tiles_update_tile move_other_tile)

lemma rects_move_other:
  "r \<notin> rect_refs s w \<Longrightarrow> rects (move s v w) r = rects w r"
  by (simp add: rect_refs_def move_normal_form Let_def rects_shift_other)

lemma rects_camera_step_other:
  "r \<notin> rect_refs s w \<Longrightarrow> rects (camera_step cam s w) r = rects w r"
  by (simp add: camera_step_alt set_compass_def rects_move_other rect_refs_def tiles_update_tile)

lemma rect_refs_camera_step [simp]:
  "rect_refs x (camera_step cam s w) = rect_refs x w"
  by (simp add: rect_refs_def camera_step_fields)

lemma view_camera_step_other:
  assumes "x \<noteq> s" and "rect_refs s w \<inter> rect_refs x w = {}"
  shows "sprite_view x (camera_step cam s w) = sprite_view x w"
proof -
  have "rect (tiles w x) \<notin> rect_refs s w" and "hitbox (tiles w x) \<notin> rect_refs s w"
    using assms(2) by (auto simp: rect_refs_def)
  then show ?thesis
    using assms(1)
    by (simp add: sprite_view_def render_rect_def hitbox_rect_def camera_step_other_tile
        rects_camera_step_other)
qed


lemma view_eq_iff:
  "sprite_view x w = sprite_view x w' \<longleftrightarrow>
     tiles w x = tiles w' x
     \<and> rects w (rect (tiles w' x)) = rects w' (rect (tiles w' x))
     \<and> rects w (hitbox (tiles w' x)) = rects w' (hitbox (tiles w' x))"
  by (auto simp: sprite_view_def render_rect_def hitbox_rect_def)

lemma view_shift_cong:
  assumes "sprite_view x w = sprite_view x w'"
  shows "sprite_view x (shift x dx dy w) = sprite_view x (shift x dx dy w')"
proof -
  have t: "tiles w x = tiles w' x"
    and r: "rects w (rect (tiles w' x)) = rects w' (rect (tiles w' x))"
    and h: "rects w (hitbox (tiles w' x)) = rects w' (hitbox (tiles w' x))"
    using assms by (simp_all add: view_eq_iff)
  show ?thesis
    by (simp add: view_eq_iff shift_def Let_def rects_update_rect render_rect_def t r h)
qed

lemma view_update_tile_cong:
  assumes "sprite_view x w = sprite_view x w'"
    and "rect (f (tiles w x)) = rect (tiles w x)"
    and "hitbox (f (tiles w x)) = hitbox (tiles w x)"
  shows "sprite_view x (update_tile x f w) = sprite_view x (update_tile x f w')"
proof -
  have t: "tiles w x = tiles w' x"
    and r: "rects w (rect (tiles w' x)) = rects w' (rect (tiles w' x))"
    and h: "rects w (hitbox (tiles w' x)) = rects w' (hitbox (tiles w' x))"
    using assms(1) by (simp_all add: view_eq_iff)
  show ?thesis
    using assms(2,3) by (simp add: view_eq_iff tiles_update_tile t r h)
qed

lemma view_tile: "sprite_view x w = sprite_view x w' \<Longrightarrow> tiles w x = tiles w' x"
  by (simp add: sprite_view_def)

lemma view_move_cong:
  assumes "sprite_view x w = sprite_view x w'"
  shows "sprite_view x (move x sp w) = sprite_view x (move x sp w')"
proof -
  have t: "tiles w x = tiles w' x" using assms by (rule view_tile)
  let ?v = "vertical (movementTracker (tiles w' x)) + snd (compass (tiles w' x))"
  let ?h = "horizontal (movementTracker (tiles w' x)) + fst (compass (tiles w' x))"
  let ?V = "\<lambda>u. if ?v \<le> real_of_int Direction_up then shift x 0 (- sp) u
                else if real_of_int Direction_down \<le> ?v then shift x 0 sp u else u"
  let ?H = "\<lambda>u. if ?h \<le> real_of_int Direction_left then shift x (- sp) 0 u
                else if real_of_int Direction_right \<le> ?h then shift x sp 0 u else u"
  let ?F = "\<lambda>t. t\<lparr>movementTracker :=
           \<lparr>vertical = (if ?v \<le> real_of_int Direction_up then ?v + real_of_int Direction_down
                         else if real_of_int Direction_down \<le> ?v
                         then ?v + real_of_int Direction_up else ?v),
            horizontal = (if ?h \<le> real_of_int Direction_left then ?h + real_of_int Direction_right
                         else if real_of_int Direction_right \<le> ?h
                         then ?h + real_of_int Direction_left else ?h)\<rparr>\<rparr>"
  have 1: "sprite_view x (?V w) = sprite_view x (?V w')"
    using assms by (auto intro: view_shift_cong)
  have 2: "sprite_view x (?H (?V w)) = sprite_view x (?H (?V w'))"
    using 1 by (auto intro: view_shift_cong)
  have 3: "move x sp w = update_tile x ?F (?H (?V w))"
    by (simp add: move_normal_form Let_def t)
  have 4: "move x sp w' = update_tile x ?F (?H (?V w'))"
    by (simp add: move_normal_form Let_def)
  show ?thesis
    unfolding 3 4 using 2 by (rule view_update_tile_cong) simp_all
qed

lemma view_set_compass_cong:
  assumes "sprite_view x w = sprite_view x w'"
  shows "sprite_view x (set_compass x c w) = sprite_view x (set_compass x c w')"
  unfolding set_compass_def
  using assms by (rule view_update_tile_cong) simp_all

lemma view_camera_step_cong:
  assumes "sprite_view x w = sprite_view x w'"
    and "compass (tiles w (playerCharacter cam)) = compass (tiles w' (playerCharacter cam))"
    and "speed (tiles w (playerCharacter cam)) = speed (tiles w' (playerCharacter cam))"
  shows "sprite_view x (camera_step cam x w) = sprite_view x (camera_step cam x w')"
proof -
  have t: "tiles w x = tiles w' x" using assms(1) by (rule view_tile)
  show ?thesis
    unfolding camera_step_alt assms(2,3) t
    by (intro view_set_compass_cong view_move_cong assms(1))
qed


lemma fold_camera_step_frame:
  assumes "x \<notin> set xs"
    and "\<forall>other\<in>set xs. rect_refs other w \<inter> rect_refs x w = {}"
  shows "sprite_view x (fold (camera_step cam) xs w) = sprite_view x w"
  using assms
proof (induction xs arbitrary: w)
  case Nil
  show ?case by simp
next
  case (Cons a xs)
  have "sprite_view x (fold (camera_step cam) xs (camera_step cam a w))
      = sprite_view x (camera_step cam a w)"
    using Cons.prems by (intro Cons.IH) simp_all
  also have "\<dots> = sprite_view x w"
    using Cons.prems by (intro view_camera_step_other) auto
  finally show ?case by simp
qed

lemma fold_camera_step_view:
  assumes "distinct xs" and "x \<in> set xs"
    and "\<forall>other\<in>set xs. other \<noteq> x \<longrightarrow> rect_refs other w \<inter> rect_refs x w = {}"
  shows "sprite_view x (fold (camera_step cam) xs w) = sprite_view x (camera_step cam x w)"
  using assms
proof (induction xs arbitrary: w)
  case Nil
  then show ?case by simp
next
  case (Cons a xs)
  show ?case
  proof (cases "a = x")
    case True
    have "x \<notin> set xs" using Cons.prems(1) True by simp
    moreover have "\<forall>other\<in>set xs. rect_refs other (camera_step cam x w)
        \<inter> rect_refs x (camera_step cam x w) = {}"
      using Cons.prems(1,3) True by auto
    ultimately have "sprite_view x (fold (camera_step cam) xs (camera_step cam x w))
        = sprite_view x (camera_step cam x w)"
      by (rule fold_camera_step_frame)
    then show ?thesis using True by simp
  next
    case False
    have mem: "x \<in> set xs" using Cons.prems(2) False by simp
    have same: "sprite_view x (camera_step cam a w) = sprite_view x w"
      using False Cons.prems(3) by (intro view_camera_step_other) auto
    have "sprite_view x (fold (camera_step cam) xs (camera_step cam a w))
        = sprite_view x (camera_step cam x (camera_step cam a w))"
      using Cons.prems mem by (intro Cons.IH) simp_all
    also have "\<dots> = sprite_view x (camera_step cam x w)"
      using same by (rule view_camera_step_cong) (simp_all add: camera_step_fields)
    finally show ?thesis by simp
  qed
qed

lemma camera_update_view:
  assumes "distinct (sprites cam)" and "sprite \<in> set (sprites cam)"
    and "\<forall>other\<in>set (sprites cam). other \<noteq> sprite \<longrightarrow>
           rect_refs other w \<inter> rect_refs sprite w = {}"
  shows "sprite_view sprite (camera_update cam w) = sprite_view sprite (camera_step cam sprite w)"
  unfolding camera_update_def camera_order_def
  using assms by (intro fold_camera_step_view) simp_all

lemma view_set_compass:
  "sprite_view x (set_compass x c w)
     = ((tiles w x)\<lparr>compass := c\<rparr>, render_rect x w, hitbox_rect x w)"
  by (simp add: sprite_view_def set_compass_def render_rect_def hitbox_rect_def tiles_update_tile)

text \<open>
  C4. Let \<open>H\<close> and \<open>S\<close> be the player's heading and speed. For every sprite the camera
  manages whose \<open>Rect\<close> objects no other managed sprite refers to, one \<open>camera_update()\<close>
  leaves the sprite's render rectangle, its collision rectangle and its accumulator as
  its own \<open>move(S)\<close> under the heading \<open>-H\<close> would have left them, and leaves its heading
  what it was before the call.
\<close>

theorem camera_update_moves_with_inverted_heading:
  assumes "distinct (sprites cam)" and "sprite \<in> set (sprites cam)"
    and "\<forall>other\<in>set (sprites cam). other \<noteq> sprite \<longrightarrow>
           rect_refs other w \<inter> rect_refs sprite w = {}"
  shows "let H = compass (tiles w (playerCharacter cam));
             S = speed (tiles w (playerCharacter cam));
             moved = move sprite S (set_compass sprite (scale H (- 1)) w);
             after = camera_update cam w
         in render_rect sprite after = render_rect sprite moved
          \<and> hitbox_rect sprite after = hitbox_rect sprite moved
          \<and> movementTracker (tiles after sprite) = movementTracker (tiles moved sprite)
          \<and> compass (tiles after sprite) = compass (tiles w sprite)"
proof -
  let ?moved = "move sprite (speed (tiles w (playerCharacter cam)))
     (set_compass sprite (scale (compass (tiles w (playerCharacter cam))) (- 1)) w)"
  have "sprite_view sprite (camera_update cam w)
      = sprite_view sprite (set_compass sprite (compass (tiles w sprite)) ?moved)"
    using camera_update_view [OF assms] by (simp add: camera_step_alt)
  then have "sprite_view sprite (camera_update cam w)
      = ((tiles ?moved sprite)\<lparr>compass := compass (tiles w sprite)\<rparr>,
         render_rect sprite ?moved, hitbox_rect sprite ?moved)"
    by (simp add: view_set_compass)
  then show ?thesis
    by (simp add: sprite_view_def Let_def)
qed

theorem camera_update_moves_with_inverted_heading_witness:
  "compass (tiles scene (playerCharacter scene_camera)) = (1, 0)
   \<and> speed (tiles scene (playerCharacter scene_camera)) = 4
   \<and> topleft (render_rect 0 scene) = (100, 100)
   \<and> topleft (render_rect 0 (camera_update scene_camera scene)) = (96, 100)
   \<and> render_rect 0 (camera_update scene_camera scene)
       = render_rect 0 (move 0 4 (set_compass 0 (- 1, 0) scene))
   \<and> compass (tiles (camera_update scene_camera scene) 0) = compass (tiles scene 0)"
proof -
  have h1: "distinct (sprites scene_camera)"
    by (simp add: scene_camera_def)
  have h2: "0 \<in> set (sprites scene_camera)"
    by (simp add: scene_camera_def)
  have h3: "\<forall>other\<in>set (sprites scene_camera). other \<noteq> 0 \<longrightarrow>
      rect_refs other scene \<inter> rect_refs 0 scene = {}"
    by (simp add: scene_camera_def scene_def rect_refs_def example_defs tiles_update_tile
        Let_def)
  have p: "compass (tiles scene (playerCharacter scene_camera)) = (1, 0)"
    "speed (tiles scene (playerCharacter scene_camera)) = 4"
    by (simp_all add: scene_camera_def scene_def example_defs tiles_update_tile Let_def)
  have before: "topleft (render_rect 0 scene) = (100, 100)"
    by (simp add: scene_def example_defs store_defs topleft_def Let_def)
  have t: "movementTracker (tiles scene 0) = \<lparr>vertical = 0, horizontal = 0\<rparr>"
    by (simp add: scene_def example_defs store_defs Let_def)
  have moved: "topleft (render_rect 0 (move 0 4 (set_compass 0 (- 1, 0) scene))) = (96, 100)"
    using before t
    by (simp add: topleft_def rect_x_move rect_y_move Direction_defs Let_def)
  show ?thesis
    using camera_update_moves_with_inverted_heading [OF h1 h2 h3] p before moved
    by (simp add: Let_def scale_def)
qed

text \<open>
  C7. \<open>camera_update()\<close> runs the body of its loop over the managed sprites, each once,
  in non-decreasing order of the vertical center of their render rectangles on entry,
  whatever the arrangement of the sprites.
\<close>

theorem camera_update_order_sorted:
  "camera_update cam w = fold (camera_step cam) (camera_order cam w) w
   \<and> sorted (map (\<lambda>sprite. centery (render_rect sprite w)) (camera_order cam w))
   \<and> mset (camera_order cam w) = mset (sprites cam)"
  by (simp add: camera_update_def camera_order_def)

end
